theory Spec2Isabelle
  imports Main "HOL-Library.List_Lexorder" "HOL-Library.Product_Lexorder"
begin

section \<open>The database viewer of the health assistant (view_database.py)\<close>

text \<open>
  The program opens the SQLite file \<^verbatim>\<open>health_assistant.db\<close>, runs fixed queries over the
  tables \<^verbatim>\<open>users\<close> and \<^verbatim>\<open>appointments\<close> and prints the results, driven by a menu.
  The embedding below follows the source function by function. What the program prints is
  a list of output events; what it reads is a list of input events; the database file is a
  value of type \<open>store\<close>.
\<close>

subsection \<open>Text\<close>

text \<open>
  A Python \<^verbatim>\<open>str\<close> is a sequence of Unicode code points: \<^verbatim>\<open>len\<close> counts them and a slice
  cuts between them. It is modelled as the list of its code points. SQLite compares TEXT
  values bytewise on their UTF-8 encoding, which is the lexicographic order of the code
  point lists (the order on lists of the library theory \<open>List_Lexorder\<close>).
  \<open>lit\<close> reads an ASCII literal of the source.
\<close>

type_synonym str = "nat list"

definition lit :: "string \<Rightarrow> str" where
  "lit s = map of_char s"

text \<open>Python's \<^verbatim>\<open>str(n)\<close> of an integer, as an f-string formats it.\<close>

fun str_nat :: "nat \<Rightarrow> str" where
  "str_nat n = (if n < 10 then [48 + n] else str_nat (n div 10) @ [48 + n mod 10])"

declare str_nat.simps [simp del]

definition str_int :: "int \<Rightarrow> str" where
  "str_int i = (if i < 0 then 45 # str_nat (nat (- i)) else str_nat (nat i))"

text \<open>
  \<^verbatim>\<open>str.strip()\<close> removes the leading and trailing characters for which \<^verbatim>\<open>str.isspace\<close>
  holds.
\<close>

definition isspace :: "nat \<Rightarrow> bool" where
  "isspace c = ((9 \<le> c \<and> c \<le> 13) \<or> (28 \<le> c \<and> c \<le> 32) \<or> c = 133 \<or> c = 160 \<or> c = 5760
     \<or> (8192 \<le> c \<and> c \<le> 8202) \<or> c = 8232 \<or> c = 8233 \<or> c = 8239 \<or> c = 8287 \<or> c = 12288)"

definition strip :: "str \<Rightarrow> str" where
  "strip s = rev (dropWhile isspace (rev (dropWhile isspace s)))"

subsection \<open>The store\<close>

text \<open>
  Modelled from the spec: the schema of the two tables. The \<^verbatim>\<open>CREATE TABLE\<close> statements
  belong to the application that writes the store (\<^verbatim>\<open>app.py\<close>) and are not part of this
  program. The columns are those the queries name, and their types are those of the spec's
  data model: the age and the bio of a user are optional (NULL, Python's \<^verbatim>\<open>None\<close>), every
  other column holds a value, text but for the integer \<^verbatim>\<open>id\<close>. The column \<^verbatim>\<open>id\<close> of
  each table is named after its table. A table is the list of its rows in the order a scan
  returns them.
\<close>

record user =
  user_id :: int
  name :: str
  email :: str
  age :: "int option"
  bio :: "str option"
  created_at :: str

record appointment =
  appt_id :: int
  user_email :: str
  doctor :: str
  date :: str
  time :: str
  booked_at :: str

record database =
  users :: "user list"
  appointments :: "appointment list"

text \<open>
  The file \<^verbatim>\<open>DATABASE\<close> as \<^verbatim>\<open>sqlite3.connect\<close> finds it. \<open>Unopenable\<close>: the file
  cannot be opened or created (the directory is missing or not writable, the path is a
  directory), and \<^verbatim>\<open>connect\<close> raises \<^verbatim>\<open>sqlite3.OperationalError\<close>. \<open>Missing\<close>: there is no
  such file, and \<^verbatim>\<open>connect\<close> creates an empty database, without raising; a query on it
  raises \<^verbatim>\<open>OperationalError\<close>, as it names a table that does not exist. \<open>Present db\<close>:
  the file holds both tables.
\<close>

datatype store = Unopenable | Missing | Present database

datatype exn = OperationalError str | KeyboardInterrupt | EOFError

text \<open>A connection is the database it reads, or \<open>None\<close> for the database without tables.\<close>

type_synonym connection = "database option"

definition sqlite3_connect :: "store \<Rightarrow> exn + connection" where
  "sqlite3_connect s =
     (case s of
        Unopenable \<Rightarrow> Inl (OperationalError (lit ''unable to open database file''))
      | Missing \<Rightarrow> Inr None
      | Present db \<Rightarrow> Inr (Some db))"

definition from_users :: "connection \<Rightarrow> exn + user list" where
  "from_users conn =
     (case conn of
        None \<Rightarrow> Inl (OperationalError (lit ''no such table: users''))
      | Some db \<Rightarrow> Inr (users db))"

definition from_appointments :: "connection \<Rightarrow> exn + appointment list" where
  "from_appointments conn =
     (case conn of
        None \<Rightarrow> Inl (OperationalError (lit ''no such table: appointments''))
      | Some db \<Rightarrow> Inr (appointments db))"

subsection \<open>Output\<close>

text \<open>
  A table cell is a Python value, an \<^verbatim>\<open>int\<close> or a \<^verbatim>\<open>str\<close>. The library function
  \<^verbatim>\<open>tabulate\<close> is not part of the program: a printed table is recorded with its rows, its
  headers and its format. \<open>Print s\<close> is the call \<^verbatim>\<open>print(s)\<close>, and \<open>Prompt s\<close> the prompt
  that \<^verbatim>\<open>input(s)\<close> writes.
\<close>

datatype cell = CInt int | CStr str

datatype tablefmt = Grid | FancyGrid | Simple

datatype out = Print str | PrintTabulate "cell list list" "str list" tablefmt | Prompt str

text \<open>How a cell reads in the printed table.\<close>

fun cell_text :: "cell \<Rightarrow> str" where
  "cell_text (CInt i) = str_int i"
| "cell_text (CStr s) = s"

definition print_section :: "str \<Rightarrow> out list" where
  "print_section title =
     [Print (10 # replicate 80 61), Print (lit ''  '' @ title), Print (replicate 80 61)]"

subsection \<open>Python's \<^verbatim>\<open>or\<close> on a column value\<close>

text \<open>
  \<^verbatim>\<open>x or d\<close> is \<open>d\<close> when \<open>x\<close> is falsy: \<^verbatim>\<open>None\<close>, the integer 0 or the empty string.
\<close>

definition or_str :: "str option \<Rightarrow> str \<Rightarrow> str" where
  "or_str x d = (case x of None \<Rightarrow> d | Some s \<Rightarrow> if s = [] then d else s)"

definition or_int :: "int option \<Rightarrow> str \<Rightarrow> cell" where
  "or_int x d = (case x of None \<Rightarrow> CStr d | Some i \<Rightarrow> if i = 0 then CStr d else CInt i)"

subsection \<open>view_users\<close>

definition users_headers :: "str list" where
  "users_headers =
     [lit ''ID'', lit ''Name'', lit ''Email'', lit ''Age'', lit ''Bio'', lit ''Created At'']"

text \<open>
  The bio cell: \<^verbatim>\<open>(u["bio"][:30] + "...") if len(u["bio"] or "") > 30 else u["bio"] or "N/A"\<close>.
  The slice is reached only when the bio is a string longer than 30.
\<close>

definition bio_cell :: "str option \<Rightarrow> str" where
  "bio_cell b =
     (if 30 < length (or_str b [])
      then (case b of Some s \<Rightarrow> take 30 s @ lit ''...'' | None \<Rightarrow> [])
      else or_str b (lit ''N/A''))"

definition user_row :: "user \<Rightarrow> cell list" where
  "user_row u =
     [CInt (user_id u), CStr (name u), CStr (email u), or_int (age u) (lit ''N/A''),
      CStr (bio_cell (bio u)), CStr (created_at u)]"

definition total_users_line :: "nat \<Rightarrow> str" where
  "total_users_line n = [10, 0x1F4CA] @ lit '' Total Users: '' @ str_nat n"

definition no_users_found :: str where
  "no_users_found = 0x274C # lit '' No users found''"

definition view_users :: "store \<Rightarrow> exn + out list" where
  "view_users s =
     (case sqlite3_connect s of
        Inl e \<Rightarrow> Inl e
      | Inr conn \<Rightarrow>
          (case from_users conn of
             Inl e \<Rightarrow> Inl e
           | Inr us \<Rightarrow>
               Inr (if us \<noteq> []
                    then [PrintTabulate (map user_row us) users_headers Grid,
                          Print (total_users_line (length us))]
                    else [Print no_users_found])))"

subsection \<open>The operators of the queries\<close>

text \<open>
  \<^verbatim>\<open>ORDER BY k\<close> is \<open>sort_key\<close>, the stable insertion sort of the library, and
  \<^verbatim>\<open>ORDER BY k DESC\<close> is \<open>order_by_desc\<close>, its mirror image. SQLite leaves the order of
  rows with equal keys open; here they keep the order of the scan.
\<close>

fun insort_desc :: "('a \<Rightarrow> 'k::linorder) \<Rightarrow> 'a \<Rightarrow> 'a list \<Rightarrow> 'a list" where
  "insort_desc f x [] = [x]"
| "insort_desc f x (y # ys) = (if f y \<le> f x then x # y # ys else y # insort_desc f x ys)"

definition order_by_desc :: "('a \<Rightarrow> 'k::linorder) \<Rightarrow> 'a list \<Rightarrow> 'a list" where
  "order_by_desc f xs = foldr (insort_desc f) xs []"

text \<open>
  \<^verbatim>\<open>l LEFT JOIN r ON c\<close>: every row of \<open>l\<close> with each row of \<open>r\<close> that matches it, or
  once with NULLs when none does. \<^verbatim>\<open>l JOIN r ON c\<close>: the matching pairs only.
\<close>

definition left_join :: "'a list \<Rightarrow> 'b list \<Rightarrow> ('a \<Rightarrow> 'b \<Rightarrow> bool) \<Rightarrow> ('a \<times> 'b option) list" where
  "left_join ls rs c =
     concat (map (\<lambda>l. case filter (c l) rs of
                           [] \<Rightarrow> [(l, None)]
                         | m # ms \<Rightarrow> map (\<lambda>r. (l, Some r)) (m # ms)) ls)"

definition inner_join :: "'a list \<Rightarrow> 'b list \<Rightarrow> ('a \<Rightarrow> 'b \<Rightarrow> bool) \<Rightarrow> ('a \<times> 'b) list" where
  "inner_join ls rs c = concat (map (\<lambda>l. map (\<lambda>r. (l, r)) (filter (c l) rs)) ls)"

text \<open>
  \<^verbatim>\<open>GROUP BY k\<close>: the rows with equal keys form a group. A group is returned with its
  first row, from which a bare column of the result is read; the groups stand in the order
  of their first rows.
\<close>

fun group_by :: "('r \<Rightarrow> 'k) \<Rightarrow> 'r list \<Rightarrow> ('r \<times> 'r list) list" where
  "group_by k [] = []"
| "group_by k (r # rs) =
     (r, r # filter (\<lambda>x. k x = k r) rs) # group_by k (filter (\<lambda>x. k x \<noteq> k r) rs)"

text \<open>\<^verbatim>\<open>LIMIT 1\<close> with \<^verbatim>\<open>fetchone()\<close>: the first row, or \<^verbatim>\<open>None\<close>.\<close>

definition fetchone :: "'a list \<Rightarrow> 'a option" where
  "fetchone rows = (case rows of [] \<Rightarrow> None | r # _ \<Rightarrow> Some r)"

subsection \<open>view_appointments\<close>

definition appointments_headers :: "str list" where
  "appointments_headers =
     [lit ''ID'', lit ''User'', lit ''Email'', lit ''Doctor'', lit ''Date'', lit ''Time'',
      lit ''Booked At'']"

text \<open>
  The query
  \<^verbatim>\<open>SELECT a.id, a.user_email, u.name as user_name, a.doctor, a.date, a.time, a.booked_at
   FROM appointments a LEFT JOIN users u ON a.user_email = u.email ORDER BY a.date, a.time\<close>;
  a row of its result is the appointment with the user name, NULL when the join misses.
\<close>

definition select_appointments :: "connection \<Rightarrow> exn + (appointment \<times> str option) list" where
  "select_appointments conn =
     (case from_appointments conn of
        Inl e \<Rightarrow> Inl e
      | Inr as \<Rightarrow>
          (case from_users conn of
             Inl e \<Rightarrow> Inl e
           | Inr us \<Rightarrow>
               Inr (sort_key (\<lambda>(a, user_name). (date a, time a))
                      (map (\<lambda>(a, u). (a, map_option name u))
                         (left_join as us (\<lambda>a u. user_email a = email u))))))"

definition appointment_row :: "appointment \<times> str option \<Rightarrow> cell list" where
  "appointment_row r =
     (case r of (a, user_name) \<Rightarrow>
        [CInt (appt_id a), CStr (or_str user_name (lit ''Unknown'')), CStr (user_email a),
         CStr (doctor a), CStr (date a), CStr (time a), CStr (booked_at a)])"

definition total_appointments_line :: "nat \<Rightarrow> str" where
  "total_appointments_line n = [10, 0x1F4C5] @ lit '' Total Appointments: '' @ str_nat n"

definition no_appointments_found :: str where
  "no_appointments_found = 0x274C # lit '' No appointments found''"

definition view_appointments :: "store \<Rightarrow> exn + out list" where
  "view_appointments s =
     (case sqlite3_connect s of
        Inl e \<Rightarrow> Inl e
      | Inr conn \<Rightarrow>
          (case select_appointments conn of
             Inl e \<Rightarrow> Inl e
           | Inr rows \<Rightarrow>
               Inr (if rows \<noteq> []
                    then [PrintTabulate (map appointment_row rows) appointments_headers Grid,
                          Print (total_appointments_line (length rows))]
                    else [Print no_appointments_found])))"

subsection \<open>view_stats\<close>

text \<open>
  The query for the most active user,
  \<^verbatim>\<open>SELECT u.name, u.email, COUNT(a.id) as appt_count
   FROM users u LEFT JOIN appointments a ON u.email = a.user_email
   GROUP BY u.email ORDER BY appt_count DESC LIMIT 1\<close>.
  \<^verbatim>\<open>COUNT(a.id)\<close> counts the rows of a group whose \<^verbatim>\<open>a.id\<close> is not NULL, which are the rows
  where the join found an appointment.
\<close>

definition count_appointments :: "(user \<times> appointment option) list \<Rightarrow> nat" where
  "count_appointments g = length (filter (\<lambda>(u, a). a \<noteq> None) g)"

definition user_appt_counts :: "user list \<Rightarrow> appointment list \<Rightarrow> (str \<times> str \<times> nat) list" where
  "user_appt_counts us as =
     map (\<lambda>(r, g). (name (fst r), email (fst r), count_appointments g))
       (group_by (\<lambda>(u, a). email u) (left_join us as (\<lambda>u a. email u = user_email a)))"

definition select_most_active :: "connection \<Rightarrow> exn + (str \<times> str \<times> nat) option" where
  "select_most_active conn =
     (case from_users conn of
        Inl e \<Rightarrow> Inl e
      | Inr us \<Rightarrow>
          (case from_appointments conn of
             Inl e \<Rightarrow> Inl e
           | Inr as \<Rightarrow>
               Inr (fetchone (order_by_desc (\<lambda>(n, e, appt_count). appt_count)
                                (user_appt_counts us as)))))"

text \<open>
  The query for the most booked doctor,
  \<^verbatim>\<open>SELECT doctor, COUNT(*) as count FROM appointments
   GROUP BY doctor ORDER BY count DESC LIMIT 1\<close>.
\<close>

definition doctor_counts :: "appointment list \<Rightarrow> (str \<times> nat) list" where
  "doctor_counts as = map (\<lambda>(r, g). (doctor r, length g)) (group_by doctor as)"

definition select_popular_doctor :: "connection \<Rightarrow> exn + (str \<times> nat) option" where
  "select_popular_doctor conn =
     (case from_appointments conn of
        Inl e \<Rightarrow> Inl e
      | Inr as \<Rightarrow> Inr (fetchone (order_by_desc (\<lambda>(d, count). count) (doctor_counts as))))"

definition most_active_value :: "(str \<times> str \<times> nat) option \<Rightarrow> str" where
  "most_active_value most_active =
     (case most_active of
        None \<Rightarrow> lit ''N/A''
      | Some (n, e, appt_count) \<Rightarrow>
          if 0 < appt_count then n @ lit '' ('' @ str_nat appt_count @ lit '' appointments)''
          else lit ''N/A'')"

definition popular_doctor_value :: "(str \<times> nat) option \<Rightarrow> str" where
  "popular_doctor_value popular_doctor =
     (case popular_doctor of
        None \<Rightarrow> lit ''N/A''
      | Some (d, count) \<Rightarrow> d @ lit '' ('' @ str_nat count @ lit '' bookings)'')"

definition stats_headers :: "str list" where
  "stats_headers = [lit ''Metric'', lit ''Value'']"

definition label_total_users :: str where
  "label_total_users = 0x1F465 # lit '' Total Users''"

definition label_total_appointments :: str where
  "label_total_appointments = 0x1F4C5 # lit '' Total Appointments''"

definition label_today :: str where
  "label_today = 0x1F550 # lit '' Today's Appointments''"

definition label_most_active :: str where
  "label_most_active = 0x2B50 # lit '' Most Active User''"

definition label_popular_doctor :: str where
  "label_popular_doctor = [0x1F468, 0x200D, 0x2695, 0xFE0F] @ lit '' Most Booked Doctor''"

text \<open>
  \<open>today\<close> is \<^verbatim>\<open>datetime.now().strftime("%Y-%m-%d")\<close>, the date of the clock when the
  statistics are asked for.
\<close>

definition view_stats :: "store \<Rightarrow> str \<Rightarrow> exn + out list" where
  "view_stats s today =
     (case sqlite3_connect s of
        Inl e \<Rightarrow> Inl e
      | Inr conn \<Rightarrow>
          (case from_users conn of
             Inl e \<Rightarrow> Inl e
           | Inr us \<Rightarrow>
               (case from_appointments conn of
                  Inl e \<Rightarrow> Inl e
                | Inr as \<Rightarrow>
                    (case select_most_active conn of
                       Inl e \<Rightarrow> Inl e
                     | Inr most_active \<Rightarrow>
                         (case select_popular_doctor conn of
                            Inl e \<Rightarrow> Inl e
                          | Inr popular_doctor \<Rightarrow>
                              Inr [PrintTabulate
                                     [[CStr label_total_users, CInt (int (length us))],
                                      [CStr label_total_appointments, CInt (int (length as))],
                                      [CStr label_today,
                                       CInt (int (length (filter (\<lambda>a. date a = today) as)))],
                                      [CStr label_most_active,
                                       CStr (most_active_value most_active)],
                                      [CStr label_popular_doctor,
                                       CStr (popular_doctor_value popular_doctor)]]
                                     stats_headers FancyGrid])))))"

subsection \<open>view_recent_activity\<close>

text \<open>
  \<^verbatim>\<open>SELECT name, email, created_at FROM users ORDER BY created_at DESC LIMIT 5\<close> and
  \<^verbatim>\<open>SELECT u.name, a.doctor, a.date, a.time, a.booked_at
   FROM appointments a JOIN users u ON a.user_email = u.email
   ORDER BY a.booked_at DESC LIMIT 5\<close>.
\<close>

definition select_recent_users :: "connection \<Rightarrow> exn + user list" where
  "select_recent_users conn =
     (case from_users conn of
        Inl e \<Rightarrow> Inl e
      | Inr us \<Rightarrow> Inr (take 5 (order_by_desc created_at us)))"

definition select_recent_appts :: "connection \<Rightarrow> exn + (appointment \<times> user) list" where
  "select_recent_appts conn =
     (case from_appointments conn of
        Inl e \<Rightarrow> Inl e
      | Inr as \<Rightarrow>
          (case from_users conn of
             Inl e \<Rightarrow> Inl e
           | Inr us \<Rightarrow>
               Inr (take 5 (order_by_desc (\<lambda>(a, u). booked_at a)
                              (inner_join as us (\<lambda>a u. user_email a = email u))))))"

definition recent_user_row :: "user \<Rightarrow> cell list" where
  "recent_user_row u = [CStr (name u), CStr (email u), CStr (created_at u)]"

definition recent_appt_row :: "appointment \<times> user \<Rightarrow> cell list" where
  "recent_appt_row r =
     (case r of (a, u) \<Rightarrow>
        [CStr (name u), CStr (doctor a), CStr (date a), CStr (time a), CStr (booked_at a)])"

definition recent_signups_heading :: str where
  "recent_signups_heading = [10, 0x1F195] @ lit '' Recent Signups:''"

definition recent_appointments_heading :: str where
  "recent_appointments_heading = [10, 0x1F4C5] @ lit '' Recent Appointments:''"

definition view_recent_activity :: "store \<Rightarrow> exn + out list" where
  "view_recent_activity s =
     (case sqlite3_connect s of
        Inl e \<Rightarrow> Inl e
      | Inr conn \<Rightarrow>
          (case select_recent_users conn of
             Inl e \<Rightarrow> Inl e
           | Inr recent_users \<Rightarrow>
               (case select_recent_appts conn of
                  Inl e \<Rightarrow> Inl e
                | Inr recent_appts \<Rightarrow>
                    Inr ([Print recent_signups_heading] @
                         (if recent_users \<noteq> []
                          then [PrintTabulate (map recent_user_row recent_users)
                                  [lit ''Name'', lit ''Email'', lit ''Joined''] Simple]
                          else [Print (lit ''  No users yet'')]) @
                         [Print recent_appointments_heading] @
                         (if recent_appts \<noteq> []
                          then [PrintTabulate (map recent_appt_row recent_appts)
                                  [lit ''User'', lit ''Doctor'', lit ''Date'', lit ''Time'',
                                   lit ''Booked''] Simple]
                          else [Print (lit ''  No appointments yet'')])))))"

subsection \<open>search_user\<close>

text \<open>
  \<^verbatim>\<open>SELECT * FROM users WHERE email = ?\<close> with \<^verbatim>\<open>fetchone()\<close>, and for the user found
  \<^verbatim>\<open>SELECT * FROM appointments WHERE user_email = ? ORDER BY date, time\<close>. The second query
  runs after the user's details are printed; on a connection where the first query ran it
  finds its table.
\<close>

definition user_details_heading :: str where
  "user_details_heading = [10, 0x1F464] @ lit '' User Details:''"

definition user_appointments_heading :: "nat \<Rightarrow> str" where
  "user_appointments_heading n =
     [10, 0x1F4C5] @ lit '' Appointments ('' @ str_nat n @ lit ''):''"

definition user_not_found :: "str \<Rightarrow> str" where
  "user_not_found query = 0x274C # lit '' User not found: '' @ query"

definition user_appointment_row :: "appointment \<Rightarrow> cell list" where
  "user_appointment_row a = [CInt (appt_id a), CStr (doctor a), CStr (date a), CStr (time a)]"

definition search_user :: "store \<Rightarrow> str \<Rightarrow> exn + out list" where
  "search_user s query =
     (case sqlite3_connect s of
        Inl e \<Rightarrow> Inl e
      | Inr conn \<Rightarrow>
          (case from_users conn of
             Inl e \<Rightarrow> Inl e
           | Inr us \<Rightarrow>
               (case fetchone (filter (\<lambda>u. email u = query) us) of
                  Some u \<Rightarrow>
                    (case from_appointments conn of
                       Inl e \<Rightarrow> Inl e
                     | Inr as \<Rightarrow>
                         (let appts = sort_key (\<lambda>a. (date a, time a))
                                        (filter (\<lambda>a. user_email a = query) as)
                          in Inr ([Print user_details_heading,
                                   Print (lit ''  ID: '' @ str_int (user_id u)),
                                   Print (lit ''  Name: '' @ name u),
                                   Print (lit ''  Email: '' @ email u),
                                   Print (lit ''  Age: '' @
                                          cell_text (or_int (age u) (lit ''Not set''))),
                                   Print (lit ''  Bio: '' @ or_str (bio u) (lit ''Not set'')),
                                   Print (lit ''  Joined: '' @ created_at u),
                                   Print (user_appointments_heading (length appts))] @
                                  (if appts \<noteq> []
                                   then [PrintTabulate (map user_appointment_row appts)
                                           [lit ''ID'', lit ''Doctor'', lit ''Date'', lit ''Time'']
                                           Simple]
                                   else [Print (lit ''  No appointments'')]))))
                | None \<Rightarrow> Inr [Print (user_not_found query)])))"

subsection \<open>interactive_menu\<close>

text \<open>
  The console: \<^verbatim>\<open>input()\<close> returns the next line typed, raises \<^verbatim>\<open>KeyboardInterrupt\<close> when
  the user interrupts instead, and raises \<^verbatim>\<open>EOFError\<close> when the input has ended.
\<close>

datatype event = Line str | Interrupt

definition input :: "event list \<Rightarrow> exn + (str \<times> event list)" where
  "input evs =
     (case evs of
        [] \<Rightarrow> Inl EOFError
      | Interrupt # rest \<Rightarrow> Inl KeyboardInterrupt
      | Line l # rest \<Rightarrow> Inr (l, rest))"

definition menu :: "out list" where
  "menu =
     [Print (10 # replicate 80 61),
      Print (lit ''  '' @ [0x1F3E5] @ lit '' Health Assistant - Database Viewer''),
      Print (replicate 80 61),
      Print (10 # lit ''  Options:''),
      Print (lit ''  1. View All Users''),
      Print (lit ''  2. View All Appointments''),
      Print (lit ''  3. View Statistics''),
      Print (lit ''  4. View Recent Activity''),
      Print (lit ''  5. Search User by Email''),
      Print (lit ''  6. Exit''),
      Prompt (10 # lit ''  Enter choice (1-6): '')]"

definition goodbye :: str where
  "goodbye = 10 # lit ''  '' @ [0x1F44B] @ lit '' Goodbye!'' @ [10]"

definition invalid_choice :: str where
  "invalid_choice = 10 # lit ''  '' @ [0x274C] @ lit '' Invalid choice. Please try again.''"

definition press_enter :: out where
  "press_enter = Prompt (10 # lit ''  Press Enter to continue...'')"

text \<open>
  A section heading followed by a view: what is printed, and the exception when the view
  raises.
\<close>

definition section_then :: "str \<Rightarrow> exn + out list \<Rightarrow> event list \<Rightarrow> out list \<times> (exn + event list)" where
  "section_then title view rest =
     (case view of
        Inl e \<Rightarrow> (print_section title, Inl e)
      | Inr printed \<Rightarrow> (print_section title @ printed, Inr rest))"

text \<open>
  The branches of the menu for a choice other than 6: what is printed, and then the
  exception raised or the input left.
\<close>

definition dispatch :: "store \<Rightarrow> str \<Rightarrow> str \<Rightarrow> event list \<Rightarrow> out list \<times> (exn + event list)" where
  "dispatch s today choice rest =
     (if choice = lit ''1'' then section_then (lit ''ALL USERS'') (view_users s) rest
      else if choice = lit ''2'' then
        section_then (lit ''ALL APPOINTMENTS'') (view_appointments s) rest
      else if choice = lit ''3'' then
        section_then (lit ''DATABASE STATISTICS'') (view_stats s today) rest
      else if choice = lit ''4'' then
        section_then (lit ''RECENT ACTIVITY'') (view_recent_activity s) rest
      else if choice = lit ''5'' then
        (case input rest of
           Inl e \<Rightarrow> ([Prompt (10 # lit ''  Enter email: '')], Inl e)
         | Inr (l, rest') \<Rightarrow>
             (case search_user s (strip l) of
                Inl e \<Rightarrow> ([Prompt (10 # lit ''  Enter email: '')], Inl e)
              | Inr printed \<Rightarrow> (Prompt (10 # lit ''  Enter email: '') # printed, Inr rest')))
      else ([Print invalid_choice], Inr rest))"

text \<open>
  The loop. It returns what was printed and how it ended: \<open>None\<close> for the \<^verbatim>\<open>break\<close> of
  choice 6, \<open>Some e\<close> for the exception that left it.
\<close>

function interactive_menu :: "store \<Rightarrow> str \<Rightarrow> event list \<Rightarrow> out list \<times> exn option" where
  "interactive_menu s today evs =
     (case input evs of
        Inl e \<Rightarrow> (menu, Some e)
      | Inr (l, rest) \<Rightarrow>
          if strip l = lit ''6'' then (menu @ [Print goodbye], None)
          else
            (case dispatch s today (strip l) rest of
               (printed, Inl e) \<Rightarrow> (menu @ printed, Some e)
             | (printed, Inr rest') \<Rightarrow>
                 (case input rest' of
                    Inl e \<Rightarrow> (menu @ printed @ [press_enter], Some e)
                  | Inr (l', rest'') \<Rightarrow>
                      (case interactive_menu s today rest'' of
                         (printed', r) \<Rightarrow> (menu @ printed @ [press_enter] @ printed', r)))))"
  by pat_completeness auto

lemma input_shorter: "input evs = Inr (l, rest) \<Longrightarrow> length rest < length evs"
  by (auto simp: input_def split: list.splits event.splits)

lemma section_then_rest: "section_then title view rest = (printed, Inr rest') \<Longrightarrow> rest' = rest"
  by (auto simp: section_then_def split: sum.splits)

lemma dispatch_not_longer:
  "dispatch s today choice rest = (printed, Inr rest') \<Longrightarrow> length rest' \<le> length rest"
  by (auto simp: dispatch_def split: if_splits sum.splits prod.splits
      dest: section_then_rest input_shorter)

termination interactive_menu
proof (relation "measure (\<lambda>(s, today, evs). length evs)")
  show "wf (measure (\<lambda>(s, today, evs). length evs))"
    by simp
next
  fix s today evs b l rest printed y rest' b' l' rest''
  assume first: "input evs = Inr b" "(l, rest) = b"
    and branch: "(printed, y) = dispatch s today (strip l) rest" "y = Inr rest'"
    and enter: "input rest' = Inr b'" "(l', rest'') = b'"
  from first have "length rest < length evs"
    using input_shorter [of evs l rest] by simp
  moreover from branch have "length rest' \<le> length rest"
    using dispatch_not_longer [of s today "strip l" rest printed rest'] by simp
  moreover from enter have "length rest'' < length rest'"
    using input_shorter [of rest' l' rest''] by simp
  ultimately show "((s, today, rest''), s, today, evs) \<in> measure (\<lambda>(s, today, evs). length evs)"
    by simp
qed

declare interactive_menu.simps [simp del]

subsection \<open>main\<close>

text \<open>
  The \<^verbatim>\<open>except\<close> clauses of \<^verbatim>\<open>main\<close>. \<^verbatim>\<open>EOFError\<close> is caught by
  \<^verbatim>\<open>except Exception as e\<close>, and its text is \<^verbatim>\<open>EOF when reading a line\<close>.
\<close>

definition database_not_found :: "out list" where
  "database_not_found =
     [Print ([10, 0x274C] @ lit '' Error: Database 'health_assistant.db' not found!''),
      Print (lit ''   Make sure the Flask app has been run at least once.''),
      Print (lit ''   Run: python app.py'' @ [10])]"

definition handler :: "exn \<Rightarrow> out list" where
  "handler e =
     (case e of
        OperationalError m \<Rightarrow> database_not_found
      | KeyboardInterrupt \<Rightarrow> [Print (10 # goodbye)]
      | EOFError \<Rightarrow>
          [Print ([10, 0x274C] @ lit '' Error: '' @ lit ''EOF when reading a line'' @ [10])])"

text \<open>
  \<^verbatim>\<open>main\<close>: the connection is opened and closed, then the menu runs; an exception of either
  goes to its \<^verbatim>\<open>except\<close> clause. The import check of \<^verbatim>\<open>tabulate\<close> before \<^verbatim>\<open>main()\<close> is
  left out: the library is taken as installed.
\<close>

definition main :: "store \<Rightarrow> str \<Rightarrow> event list \<Rightarrow> out list" where
  "main s today evs =
     (case sqlite3_connect s of
        Inl e \<Rightarrow> handler e
      | Inr conn \<Rightarrow>
          (case interactive_menu s today evs of
             (printed, None) \<Rightarrow> printed
           | (printed, Some e) \<Rightarrow> printed @ handler e))"

section \<open>The results of the queries on a present store\<close>

text \<open>
  The rows that the query of \<^verbatim>\<open>view_appointments\<close> and the second query of
  \<^verbatim>\<open>view_recent_activity\<close> return when the store holds its tables.
\<close>

definition listed_appointments :: "database \<Rightarrow> (appointment \<times> str option) list" where
  "listed_appointments db =
     sort_key (\<lambda>(a, user_name). (date a, time a))
       (map (\<lambda>(a, u). (a, map_option name u))
          (left_join (appointments db) (users db) (\<lambda>a u. user_email a = email u)))"

definition recent_appointments :: "database \<Rightarrow> (appointment \<times> user) list" where
  "recent_appointments db =
     take 5 (order_by_desc (\<lambda>(a, u). booked_at a)
               (inner_join (appointments db) (users db) (\<lambda>a u. user_email a = email u)))"

text \<open>
  A user's appointment count, as the statistics are described: the number of appointments
  whose \<^verbatim>\<open>user_email\<close> equals the user's email. And the row that the query for the most
  active user returns on a present store.
\<close>

definition appointment_count :: "database \<Rightarrow> user \<Rightarrow> nat" where
  "appointment_count db u = length (filter (\<lambda>a. user_email a = email u) (appointments db))"

definition most_active :: "database \<Rightarrow> (str \<times> str \<times> nat) option" where
  "most_active db =
     fetchone (order_by_desc (\<lambda>(n, e, appt_count). appt_count)
                 (user_appt_counts (users db) (appointments db)))"

section \<open>An example store\<close>

text \<open>
  Three users and three appointments. Ann has no age and no bio, Bob has the age 0 and an
  empty bio, Cyd has a bio of 31 characters. Ann and Bob have one appointment each, Cyd has
  none, and the third appointment names an email that no user has.
\<close>

definition ann :: user where
  "ann = \<lparr>user_id = 1, name = lit ''Ann'', email = lit ''a@x.com'', age = None,
          bio = None, created_at = lit ''2024-01-01 09:00:00''\<rparr>"

definition bob :: user where
  "bob = \<lparr>user_id = 2, name = lit ''Bob'', email = lit ''b@x.com'', age = Some 0,
          bio = Some [], created_at = lit ''2024-01-02 09:00:00''\<rparr>"

definition cyd :: user where
  "cyd = \<lparr>user_id = 3, name = lit ''Cyd'', email = lit ''c@x.com'', age = Some 41,
          bio = Some (replicate 31 97), created_at = lit ''2024-01-03 09:00:00''\<rparr>"

definition visit1 :: appointment where
  "visit1 = \<lparr>appt_id = 1, user_email = lit ''a@x.com'', doctor = lit ''Dr. Lee'',
             date = lit ''2024-03-02'', time = lit ''10:00'',
             booked_at = lit ''2024-02-01 08:00:00''\<rparr>"

definition visit2 :: appointment where
  "visit2 = \<lparr>appt_id = 2, user_email = lit ''b@x.com'', doctor = lit ''Dr. Lee'',
             date = lit ''2024-03-01'', time = lit ''11:30'',
             booked_at = lit ''2024-02-02 08:00:00''\<rparr>"

definition visit3 :: appointment where
  "visit3 = \<lparr>appt_id = 3, user_email = lit ''z@x.com'', doctor = lit ''Dr. Kim'',
             date = lit ''2024-03-01'', time = lit ''09:15'',
             booked_at = lit ''2024-02-03 08:00:00''\<rparr>"

definition clinic :: database where
  "clinic = \<lparr>users = [ann, bob, cyd], appointments = [visit1, visit2, visit3]\<rparr>"

lemma users_clinic: "users clinic = [ann, bob, cyd]"
  by (simp add: clinic_def)

lemma appointments_clinic: "appointments clinic = [visit1, visit2, visit3]"
  by (simp add: clinic_def)

section \<open>Listing the users\<close>

lemma view_users_present:
  "view_users (Present db) =
     Inr (if users db \<noteq> []
          then [PrintTabulate (map user_row (users db)) users_headers Grid,
                Print (total_users_line (length (users db)))]
          else [Print no_users_found])"
  by (simp add: view_users_def sqlite3_connect_def from_users_def)

lemma bio_cell_long: "30 < length b \<Longrightarrow> bio_cell (Some b) = take 30 b @ lit ''...''"
  by (auto simp: bio_cell_def or_str_def)

lemma bio_cell_short: "b \<noteq> [] \<Longrightarrow> length b \<le> 30 \<Longrightarrow> bio_cell (Some b) = b"
  by (auto simp: bio_cell_def or_str_def)

lemma bio_cell_empty: "bio_cell (Some []) = lit ''N/A''"
  by (simp add: bio_cell_def or_str_def)

lemma bio_cell_None: "bio_cell None = lit ''N/A''"
  by (simp add: bio_cell_def or_str_def)

text \<open>
  Claim C4. For every user row, List Users renders a bio longer than 30 characters as its
  first 30 characters followed by \<^verbatim>\<open>...\<close>, and a non-empty bio of at most 30 characters
  as it is. The table has one row per user, in the order of the table \<^verbatim>\<open>users\<close>, and the
  bio is the cell under the header \<^verbatim>\<open>Bio\<close>.
\<close>

theorem list_users_bio_truncation:
  assumes "i < length (users db)" and "bio (users db ! i) = Some b"
  shows "view_users (Present db) =
           Inr [PrintTabulate (map user_row (users db)) users_headers Grid,
                Print (total_users_line (length (users db)))]
         \<and> users_headers ! 4 = lit ''Bio''
         \<and> (30 < length b \<longrightarrow>
              map user_row (users db) ! i ! 4 = CStr (take 30 b @ lit ''...''))
         \<and> (b \<noteq> [] \<and> length b \<le> 30 \<longrightarrow> map user_row (users db) ! i ! 4 = CStr b)"
proof -
  from assms have "users db \<noteq> []" by auto
  moreover have "map user_row (users db) ! i ! 4 = CStr (bio_cell (Some b))"
    using assms by (simp add: user_row_def)
  ultimately show ?thesis
    by (simp add: view_users_present users_headers_def bio_cell_long bio_cell_short)
qed

theorem list_users_bio_truncation_witness:
  "2 < length (users clinic) \<and> bio (users clinic ! 2) = Some (replicate 31 97)
   \<and> view_users (Present clinic) =
       Inr [PrintTabulate (map user_row (users clinic)) users_headers Grid,
            Print (total_users_line (length (users clinic)))]
   \<and> map user_row (users clinic) ! 2 ! 4 = CStr (replicate 30 97 @ lit ''...'')"
proof -
  have h1: "2 < length (users clinic)"
    by (simp add: users_clinic)
  have h2: "bio (users clinic ! 2) = Some (replicate 31 97)"
    by (simp add: users_clinic cyd_def)
  show ?thesis
    using h1 h2 list_users_bio_truncation [OF h1 h2] by simp
qed

lemma fetchone_Nil: "fetchone xs = None \<longleftrightarrow> xs = []"
  by (cases xs) (simp_all add: fetchone_def)

lemma fetchone_in_set: "fetchone xs = Some x \<Longrightarrow> x \<in> set xs"
  by (cases xs) (simp_all add: fetchone_def)

lemma filter_key_distinct:
  "distinct (map f xs) \<Longrightarrow> x \<in> set xs \<Longrightarrow> filter (\<lambda>y. f y = f x) xs = [x]"
proof (induction xs)
  case Nil
  then show ?case by simp
next
  case (Cons y ys)
  show ?case
  proof (cases "y = x")
    case True
    with Cons.prems have "f x \<notin> f ` set ys" by simp
    then have "\<forall>z\<in>set ys. f z \<noteq> f x" by (metis image_eqI)
    then have "filter (\<lambda>z. f z = f x) ys = []" by (simp add: filter_empty_conv)
    with True show ?thesis by simp
  next
    case False
    with Cons.prems have "x \<in> set ys" and "f y \<noteq> f x" by auto
    with Cons show ?thesis by simp
  qed
qed

lemma search_user_present:
  "search_user (Present db) query =
     (case fetchone (filter (\<lambda>u. email u = query) (users db)) of
        Some u \<Rightarrow>
          (let appts = sort_key (\<lambda>a. (date a, time a))
                         (filter (\<lambda>a. user_email a = query) (appointments db))
           in Inr ([Print user_details_heading,
                    Print (lit ''  ID: '' @ str_int (user_id u)),
                    Print (lit ''  Name: '' @ name u),
                    Print (lit ''  Email: '' @ email u),
                    Print (lit ''  Age: '' @ cell_text (or_int (age u) (lit ''Not set''))),
                    Print (lit ''  Bio: '' @ or_str (bio u) (lit ''Not set'')),
                    Print (lit ''  Joined: '' @ created_at u),
                    Print (user_appointments_heading (length appts))] @
                   (if appts \<noteq> []
                    then [PrintTabulate (map user_appointment_row appts)
                            [lit ''ID'', lit ''Doctor'', lit ''Date'', lit ''Time''] Simple]
                    else [Print (lit ''  No appointments'')])))
      | None \<Rightarrow> Inr [Print (user_not_found query)])"
  by (simp add: search_user_def sqlite3_connect_def from_users_def from_appointments_def
      split: option.splits)

lemma distinct_emails_clinic: "distinct (map email (users clinic))"
  by (simp add: users_clinic ann_def bob_def cyd_def lit_def)

text \<open>
  Claim C7. For every user with no recorded age, List Users renders the cell under the
  header \<^verbatim>\<open>Age\<close> as \<^verbatim>\<open>N/A\<close>. In the detail view of Search User by Email, a missing
  age and a missing bio are printed as \<^verbatim>\<open>Not set\<close>. The detail view of a user is
  the search for that user's email in a store where emails identify users.
\<close>

theorem missing_age_and_bio:
  "(i < length (users db) \<and> age (users db ! i) = None \<longrightarrow>
      view_users (Present db) =
        Inr [PrintTabulate (map user_row (users db)) users_headers Grid,
             Print (total_users_line (length (users db)))]
      \<and> users_headers ! 3 = lit ''Age''
      \<and> map user_row (users db) ! i ! 3 = CStr (lit ''N/A''))
   \<and> (u \<in> set (users db) \<and> distinct (map email (users db)) \<longrightarrow>
      (\<exists>printed. search_user (Present db) (email u) = Inr printed
          \<and> (age u = None \<longrightarrow> printed ! 4 = Print (lit ''  Age: '' @ lit ''Not set''))
          \<and> (bio u = None \<longrightarrow> printed ! 5 = Print (lit ''  Bio: '' @ lit ''Not set''))))"
proof (intro conjI impI)
  assume a: "i < length (users db) \<and> age (users db ! i) = None"
  then have "users db \<noteq> []" by auto
  then show "view_users (Present db) =
        Inr [PrintTabulate (map user_row (users db)) users_headers Grid,
             Print (total_users_line (length (users db)))]"
    by (simp add: view_users_present)
  show "users_headers ! 3 = lit ''Age''"
    by (simp add: users_headers_def)
  from a show "map user_row (users db) ! i ! 3 = CStr (lit ''N/A'')"
    by (simp add: user_row_def or_int_def)
next
  assume "u \<in> set (users db) \<and> distinct (map email (users db))"
  then have "fetchone (filter (\<lambda>v. email v = email u) (users db)) = Some u"
    by (simp add: filter_key_distinct fetchone_def)
  then show "\<exists>printed. search_user (Present db) (email u) = Inr printed
          \<and> (age u = None \<longrightarrow> printed ! 4 = Print (lit ''  Age: '' @ lit ''Not set''))
          \<and> (bio u = None \<longrightarrow> printed ! 5 = Print (lit ''  Bio: '' @ lit ''Not set''))"
    by (simp add: search_user_present Let_def or_int_def or_str_def)
qed

theorem missing_age_and_bio_witness:
  "(0 < length (users clinic) \<and> age (users clinic ! 0) = None
      \<and> map user_row (users clinic) ! 0 ! 3 = CStr (lit ''N/A''))
   \<and> ann \<in> set (users clinic) \<and> distinct (map email (users clinic))
   \<and> age ann = None \<and> bio ann = None
   \<and> (\<exists>printed. search_user (Present clinic) (email ann) = Inr printed
          \<and> printed ! 4 = Print (lit ''  Age: '' @ lit ''Not set'')
          \<and> printed ! 5 = Print (lit ''  Bio: '' @ lit ''Not set''))"
proof -
  have h1: "0 < length (users clinic) \<and> age (users clinic ! 0) = None"
    by (simp add: users_clinic ann_def)
  have h2: "ann \<in> set (users clinic) \<and> distinct (map email (users clinic))"
    using distinct_emails_clinic by (simp add: users_clinic)
  have h3: "age ann = None \<and> bio ann = None"
    by (simp add: ann_def)
  show ?thesis
    using h1 h2 h3 missing_age_and_bio [of 0 clinic ann] by simp
qed

text \<open>
  Claim C10. In List Users a recorded age of 0 and a recorded empty bio are rendered as
  \<^verbatim>\<open>N/A\<close>, and the listing is the one printed when the field is absent: an \<^verbatim>\<open>N/A\<close> cell
  does not tell a missing field from a falsy one.
\<close>

theorem zero_age_and_empty_bio:
  assumes "i < length (users db)"
  shows "view_users (Present db) =
           Inr [PrintTabulate (map user_row (users db)) users_headers Grid,
                Print (total_users_line (length (users db)))]
         \<and> (age (users db ! i) = Some 0 \<longrightarrow>
               map user_row (users db) ! i ! 3 = CStr (lit ''N/A'')
               \<and> view_users (Present (db\<lparr>users := (users db)[i := (users db ! i)\<lparr>age := None\<rparr>]\<rparr>))
                   = view_users (Present db))
         \<and> (bio (users db ! i) = Some [] \<longrightarrow>
               map user_row (users db) ! i ! 4 = CStr (lit ''N/A'')
               \<and> view_users (Present (db\<lparr>users := (users db)[i := (users db ! i)\<lparr>bio := None\<rparr>]\<rparr>))
                   = view_users (Present db))"
proof -
  from assms have ne: "users db \<noteq> []" by auto
  have age0: "user_row (u\<lparr>age := None\<rparr>) = user_row u" if "age u = Some 0" for u
    using that by (simp add: user_row_def or_int_def)
  have bio0: "user_row (u\<lparr>bio := None\<rparr>) = user_row u" if "bio u = Some []" for u
    using that by (simp add: user_row_def bio_cell_empty bio_cell_None)
  have upd: "map user_row ((users db)[i := u']) = map user_row (users db)"
    if "user_row u' = user_row (users db ! i)" for u'
    using that assms by (simp add: map_update list_update_same_conv)
  have cell3: "map user_row (users db) ! i ! 3 = CStr (lit ''N/A'')"
    if "age (users db ! i) = Some 0"
    using that assms by (simp add: user_row_def or_int_def)
  have cell4: "map user_row (users db) ! i ! 4 = CStr (lit ''N/A'')"
    if "bio (users db ! i) = Some []"
    using that assms by (simp add: user_row_def bio_cell_empty)
  show ?thesis
    using ne cell3 cell4 by (auto simp: view_users_present upd age0 bio0)
qed

theorem zero_age_and_empty_bio_witness:
  "1 < length (users clinic) \<and> age (users clinic ! 1) = Some 0 \<and> bio (users clinic ! 1) = Some []
   \<and> map user_row (users clinic) ! 1 ! 3 = CStr (lit ''N/A'')
   \<and> map user_row (users clinic) ! 1 ! 4 = CStr (lit ''N/A'')
   \<and> view_users (Present (clinic\<lparr>users := (users clinic)[1 := (users clinic ! 1)\<lparr>age := None\<rparr>]\<rparr>))
       = view_users (Present clinic)"
proof -
  have h1: "1 < length (users clinic)"
    by (simp add: users_clinic)
  have h2: "age (users clinic ! 1) = Some 0 \<and> bio (users clinic ! 1) = Some []"
    by (simp add: users_clinic bob_def)
  show ?thesis
    using h1 h2 zero_age_and_empty_bio [OF h1] by simp
qed

section \<open>Searching a user\<close>

text \<open>
  Claim C8. For an email that no user of the store has, Search User by Email prints the
  notice \<^verbatim>\<open>User not found:\<close> followed by that very string, and nothing else. A user is
  reported only when some user's email equals the queried string, and the user reported is
  one with that email.
\<close>

theorem search_user_exact_match:
  "user_not_found query = 0x274C # lit '' User not found: '' @ query
   \<and> (if \<exists>u\<in>set (users db). email u = query
       then \<exists>u printed. u \<in> set (users db) \<and> email u = query
              \<and> search_user (Present db) query =
                  Inr ([Print user_details_heading,
                        Print (lit ''  ID: '' @ str_int (user_id u)),
                        Print (lit ''  Name: '' @ name u),
                        Print (lit ''  Email: '' @ query)] @ printed)
       else search_user (Present db) query = Inr [Print (user_not_found query)])"
proof (cases "fetchone (filter (\<lambda>u. email u = query) (users db))")
  case None
  then have "\<not> (\<exists>u\<in>set (users db). email u = query)"
    by (simp add: fetchone_Nil filter_empty_conv)
  with None show ?thesis
    by (simp add: search_user_present user_not_found_def)
next
  case (Some u)
  then have u: "u \<in> set (users db) \<and> email u = query"
    using fetchone_in_set [of "filter (\<lambda>u. email u = query) (users db)" u] by simp
  then have found: "\<exists>u\<in>set (users db). email u = query" by blast
  from Some u have "\<exists>printed. search_user (Present db) query =
                  Inr ([Print user_details_heading,
                        Print (lit ''  ID: '' @ str_int (user_id u)),
                        Print (lit ''  Name: '' @ name u),
                        Print (lit ''  Email: '' @ query)] @ printed)"
    by (simp add: search_user_present Let_def)
  with u have "\<exists>u printed. u \<in> set (users db) \<and> email u = query
              \<and> search_user (Present db) query =
                  Inr ([Print user_details_heading,
                        Print (lit ''  ID: '' @ str_int (user_id u)),
                        Print (lit ''  Name: '' @ name u),
                        Print (lit ''  Email: '' @ query)] @ printed)"
    by blast
  with found show ?thesis
    by (simp add: user_not_found_def)
qed

theorem search_user_exact_match_witness:
  "\<not> (\<exists>u\<in>set (users clinic). email u = lit ''z@x.com'')
   \<and> search_user (Present clinic) (lit ''z@x.com'') =
       Inr [Print (0x274C # lit '' User not found: '' @ lit ''z@x.com'')]"
proof -
  have h: "\<not> (\<exists>u\<in>set (users clinic). email u = lit ''z@x.com'')"
    by (simp add: users_clinic ann_def bob_def cyd_def lit_def)
  show ?thesis
    using h search_user_exact_match [of "lit ''z@x.com''" clinic] by simp
qed

section \<open>The statistics\<close>

lemma view_stats_present:
  "view_stats (Present db) today =
     Inr [PrintTabulate
            [[CStr label_total_users, CInt (int (length (users db)))],
             [CStr label_total_appointments, CInt (int (length (appointments db)))],
             [CStr label_today,
              CInt (int (length (filter (\<lambda>a. date a = today) (appointments db))))],
             [CStr label_most_active,
              CStr (most_active_value
                      (fetchone (order_by_desc (\<lambda>(n, e, appt_count). appt_count)
                                   (user_appt_counts (users db) (appointments db)))))],
             [CStr label_popular_doctor,
              CStr (popular_doctor_value
                      (fetchone (order_by_desc (\<lambda>(d, count). count)
                                   (doctor_counts (appointments db)))))]]
            stats_headers FancyGrid]"
  by (simp add: view_stats_def sqlite3_connect_def from_users_def from_appointments_def
      select_most_active_def select_popular_doctor_def)

text \<open>
  Claim C6. On the store whose two tables are empty, List Users prints the notice
  \<^verbatim>\<open>No users found\<close> and no table, and Statistics reports 0 users, 0 appointments (and
  0 for today), and \<^verbatim>\<open>N/A\<close> for the most active user and for the most booked doctor.
\<close>

theorem empty_store:
  "view_users (Present \<lparr>users = [], appointments = []\<rparr>) = Inr [Print no_users_found]
   \<and> view_stats (Present \<lparr>users = [], appointments = []\<rparr>) today =
       Inr [PrintTabulate
              [[CStr label_total_users, CInt 0],
               [CStr label_total_appointments, CInt 0],
               [CStr label_today, CInt 0],
               [CStr label_most_active, CStr (lit ''N/A'')],
               [CStr label_popular_doctor, CStr (lit ''N/A'')]]
              stats_headers FancyGrid]"
  by (simp add: view_users_present view_stats_present user_appt_counts_def left_join_def
      doctor_counts_def order_by_desc_def fetchone_def most_active_value_def
      popular_doctor_value_def)

section \<open>Listing the appointments\<close>

lemma view_appointments_present:
  "view_appointments (Present db) =
     Inr (if listed_appointments db \<noteq> []
          then [PrintTabulate (map appointment_row (listed_appointments db))
                  appointments_headers Grid,
                Print (total_appointments_line (length (listed_appointments db)))]
          else [Print no_appointments_found])"
  by (simp add: view_appointments_def sqlite3_connect_def select_appointments_def
      from_users_def from_appointments_def listed_appointments_def)

lemma left_join_fst: "fst ` set (left_join ls rs c) = set ls"
proof (induction ls)
  case Nil
  then show ?case by (simp add: left_join_def)
next
  case (Cons l ls)
  have "fst ` set (case filter (c l) rs of [] \<Rightarrow> [(l, None)]
                    | m # ms \<Rightarrow> map (\<lambda>r. (l, Some r)) (m # ms)) = {l}"
    by (cases "filter (c l) rs") (auto simp: image_iff)
  with Cons show ?case
    by (simp add: left_join_def image_Un)
qed

lemma left_join_miss:
  "l \<in> set ls \<Longrightarrow> filter (c l) rs = [] \<Longrightarrow> (l, None) \<in> set (left_join ls rs c)"
  by (induction ls) (auto simp: left_join_def)

lemma left_join_hit: "(l, Some r) \<in> set (left_join ls rs c) \<Longrightarrow> r \<in> set rs \<and> c l r"
proof (induction ls)
  case Nil
  then show ?case by (simp add: left_join_def)
next
  case (Cons k ks)
  from Cons.prems
  consider "(l, Some r) \<in> set (case filter (c k) rs of [] \<Rightarrow> [(k, None)]
                                | m # ms \<Rightarrow> map (\<lambda>r. (k, Some r)) (m # ms))"
    | "(l, Some r) \<in> set (left_join ks rs c)"
    by (auto simp: left_join_def)
  then show ?case
  proof cases
    case 1
    then have "l = k \<and> r \<in> set (filter (c k) rs)"
      by (cases "filter (c k) rs") auto
    then show ?thesis by simp
  next
    case 2
    with Cons.IH show ?thesis by simp
  qed
qed

lemma listed_appointments_set:
  "set (listed_appointments db) =
     (\<lambda>(a, u). (a, map_option name u)) `
       set (left_join (appointments db) (users db) (\<lambda>a u. user_email a = email u))"
  by (simp add: listed_appointments_def)

lemma listed_appointments_fst: "fst ` set (listed_appointments db) = set (appointments db)"
proof -
  have "fst ` set (listed_appointments db) =
          fst ` set (left_join (appointments db) (users db) (\<lambda>a u. user_email a = email u))"
    by (force simp: listed_appointments_set image_iff)
  then show ?thesis by (simp add: left_join_fst)
qed

lemma listed_appointments_Nil: "listed_appointments db = [] \<longleftrightarrow> appointments db = []"
  using listed_appointments_fst [of db] by (metis image_is_empty set_empty)

lemma appointment_row_date_time:
  "(cell_text (appointment_row r ! 4), cell_text (appointment_row r ! 5)) =
     (date (fst r), time (fst r))"
  by (cases r) (simp add: appointment_row_def)

text \<open>
  Claim C5. For every store, the rows that List Appointments prints are sorted
  non-decreasing by the pair of the cells under \<^verbatim>\<open>Date\<close> and \<^verbatim>\<open>Time\<close>, compared
  lexicographically; every appointment of the store is among the rows.
\<close>

theorem appointments_sorted_by_date_time:
  "view_appointments (Present db) =
     Inr (if appointments db \<noteq> []
          then [PrintTabulate (map appointment_row (listed_appointments db))
                  appointments_headers Grid,
                Print (total_appointments_line (length (listed_appointments db)))]
          else [Print no_appointments_found])
   \<and> appointments_headers ! 4 = lit ''Date'' \<and> appointments_headers ! 5 = lit ''Time''
   \<and> sorted (map (\<lambda>r. (cell_text (r ! 4), cell_text (r ! 5)))
               (map appointment_row (listed_appointments db)))
   \<and> (\<lambda>r. r ! 0) ` set (map appointment_row (listed_appointments db)) =
       (\<lambda>a. CInt (appt_id a)) ` set (appointments db)"
proof -
  have key: "map (\<lambda>r. (cell_text (r ! 4), cell_text (r ! 5)))
               (map appointment_row (listed_appointments db)) =
             map (\<lambda>(a, user_name). (date a, time a)) (listed_appointments db)"
    by (simp add: appointment_row_date_time case_prod_beta)
  have srt: "sorted (map (\<lambda>(a, user_name). (date a, time a)) (listed_appointments db))"
    unfolding listed_appointments_def by (rule sorted_sort_key)
  have "(\<lambda>r. r ! 0) ` set (map appointment_row (listed_appointments db)) =
          (\<lambda>r. CInt (appt_id (fst r))) ` set (listed_appointments db)"
    by (force simp: appointment_row_def image_iff split: prod.splits)
  also have "\<dots> = (\<lambda>a. CInt (appt_id a)) ` fst ` set (listed_appointments db)"
    by (simp add: image_image)
  finally have ids: "(\<lambda>r. r ! 0) ` set (map appointment_row (listed_appointments db)) =
       (\<lambda>a. CInt (appt_id a)) ` set (appointments db)"
    by (simp add: listed_appointments_fst)
  have srt': "sorted (map (\<lambda>r. (cell_text (r ! 4), cell_text (r ! 5)))
               (map appointment_row (listed_appointments db)))"
    unfolding key by (rule srt)
  have printed: "view_appointments (Present db) =
     Inr (if appointments db \<noteq> []
          then [PrintTabulate (map appointment_row (listed_appointments db))
                  appointments_headers Grid,
                Print (total_appointments_line (length (listed_appointments db)))]
          else [Print no_appointments_found])"
    by (simp add: view_appointments_present listed_appointments_Nil)
  have headers: "appointments_headers ! 4 = lit ''Date'' \<and> appointments_headers ! 5 = lit ''Time''"
    by (simp add: appointments_headers_def)
  from printed headers srt' ids show ?thesis
    by blast
qed


section \<open>Appointments without a user\<close>

lemma set_insort_desc: "set (insort_desc f x xs) = insert x (set xs)"
  by (induction xs) auto

lemma set_order_by_desc: "set (order_by_desc f xs) = set xs"
  by (induction xs) (simp_all add: order_by_desc_def set_insort_desc)

lemma inner_join_pairs: "(l, r) \<in> set (inner_join ls rs c) \<longleftrightarrow> l \<in> set ls \<and> r \<in> set rs \<and> c l r"
  by (auto simp: inner_join_def)

lemma inner_join_removeAll:
  "filter (c a) rs = [] \<Longrightarrow> inner_join (removeAll a ls) rs c = inner_join ls rs c"
  by (induction ls) (auto simp: inner_join_def)

lemma select_recent_appts_present:
  "select_recent_appts (Some db) = Inr (recent_appointments db)"
  by (simp add: select_recent_appts_def from_appointments_def from_users_def
      recent_appointments_def)

lemma view_recent_activity_present:
  "view_recent_activity (Present db) =
     Inr ([Print recent_signups_heading] @
          (if take 5 (order_by_desc created_at (users db)) \<noteq> []
           then [PrintTabulate (map recent_user_row (take 5 (order_by_desc created_at (users db))))
                   [lit ''Name'', lit ''Email'', lit ''Joined''] Simple]
           else [Print (lit ''  No users yet'')]) @
          [Print recent_appointments_heading] @
          (if recent_appointments db \<noteq> []
           then [PrintTabulate (map recent_appt_row (recent_appointments db))
                   [lit ''User'', lit ''Doctor'', lit ''Date'', lit ''Time'', lit ''Booked'']
                   Simple]
           else [Print (lit ''  No appointments yet'')]))"
  by (simp add: view_recent_activity_def sqlite3_connect_def select_recent_users_def
      select_recent_appts_present from_users_def)

lemma recent_appointments_matched:
  "(a, u) \<in> set (recent_appointments db) \<Longrightarrow>
     a \<in> set (appointments db) \<and> u \<in> set (users db) \<and> user_email a = email u"
proof -
  assume "(a, u) \<in> set (recent_appointments db)"
  then have "(a, u) \<in> set (order_by_desc (\<lambda>(a, u). booked_at a)
               (inner_join (appointments db) (users db) (\<lambda>a u. user_email a = email u)))"
    unfolding recent_appointments_def by (rule in_set_takeD)
  then show ?thesis
    by (simp add: set_order_by_desc inner_join_pairs)
qed

lemma recent_appointments_removeAll:
  assumes "\<forall>u\<in>set (users db). email u \<noteq> user_email a"
  shows "recent_appointments (db\<lparr>appointments := removeAll a (appointments db)\<rparr>) =
           recent_appointments db"
proof -
  from assms have "filter (\<lambda>u. user_email a = email u) (users db) = []"
    by (auto simp: filter_empty_conv)
  then show ?thesis
    by (simp add: recent_appointments_def inner_join_removeAll)
qed

text \<open>
  Claim C3. An appointment whose \<^verbatim>\<open>user_email\<close> is the email of no user is listed by
  List Appointments with the user name \<^verbatim>\<open>Unknown\<close> (as is every row with that email),
  and Recent Activity leaves it out: it is in no row that the query for the recent
  appointments returns, and the activity printed is the one printed for the store without
  that appointment.
\<close>

theorem unmatched_appointment:
  assumes "a \<in> set (appointments db)" and "\<forall>u\<in>set (users db). email u \<noteq> user_email a"
  shows "view_appointments (Present db) =
           Inr [PrintTabulate (map appointment_row (listed_appointments db))
                  appointments_headers Grid,
                Print (total_appointments_line (length (listed_appointments db)))]
         \<and> appointments_headers ! 1 = lit ''User''
         \<and> appointments_headers ! 2 = lit ''Email''
         \<and> [CInt (appt_id a), CStr (lit ''Unknown''), CStr (user_email a), CStr (doctor a),
             CStr (date a), CStr (time a), CStr (booked_at a)]
             \<in> set (map appointment_row (listed_appointments db))
         \<and> (\<forall>r\<in>set (map appointment_row (listed_appointments db)).
               r ! 2 = CStr (user_email a) \<longrightarrow> r ! 1 = CStr (lit ''Unknown''))
         \<and> select_recent_appts (Some db) = Inr (recent_appointments db)
         \<and> a \<notin> fst ` set (recent_appointments db)
         \<and> view_recent_activity (Present (db\<lparr>appointments := removeAll a (appointments db)\<rparr>))
             = view_recent_activity (Present db)"
proof -
  from assms(2) have miss: "filter (\<lambda>u. user_email a = email u) (users db) = []"
    by (auto simp: filter_empty_conv)
  from assms(1) have "appointments db \<noteq> []" by auto
  then have printed: "view_appointments (Present db) =
           Inr [PrintTabulate (map appointment_row (listed_appointments db))
                  appointments_headers Grid,
                Print (total_appointments_line (length (listed_appointments db)))]"
    by (simp add: view_appointments_present listed_appointments_Nil)
  have headers: "appointments_headers ! 1 = lit ''User'' \<and> appointments_headers ! 2 = lit ''Email''"
    by (simp add: appointments_headers_def)
  have "(a, None) \<in> set (left_join (appointments db) (users db) (\<lambda>a u. user_email a = email u))"
    using assms(1) miss by (rule left_join_miss)
  then have "(a, None) \<in> set (listed_appointments db)"
    by (force simp: listed_appointments_set)
  then have "appointment_row (a, None) \<in> set (map appointment_row (listed_appointments db))"
    by simp
  then have row: "[CInt (appt_id a), CStr (lit ''Unknown''), CStr (user_email a), CStr (doctor a),
             CStr (date a), CStr (time a), CStr (booked_at a)]
             \<in> set (map appointment_row (listed_appointments db))"
    by (simp add: appointment_row_def or_str_def)
  have others: "\<forall>r\<in>set (map appointment_row (listed_appointments db)).
               r ! 2 = CStr (user_email a) \<longrightarrow> r ! 1 = CStr (lit ''Unknown'')"
  proof
    fix r
    assume "r \<in> set (map appointment_row (listed_appointments db))"
    then obtain b n where bn: "(b, n) \<in> set (listed_appointments db)" and r: "r = appointment_row (b, n)"
      by auto
    from bn obtain u where j: "(b, u) \<in> set (left_join (appointments db) (users db)
                                      (\<lambda>a u. user_email a = email u))"
      and n: "n = map_option name u"
      by (auto simp: listed_appointments_set)
    show "r ! 2 = CStr (user_email a) \<longrightarrow> r ! 1 = CStr (lit ''Unknown'')"
    proof
      assume "r ! 2 = CStr (user_email a)"
      with r have same: "user_email b = user_email a"
        by (simp add: appointment_row_def)
      have "u = None"
      proof (cases u)
        case None
        then show ?thesis .
      next
        case (Some v)
        with j have "v \<in> set (users db) \<and> user_email b = email v"
          using left_join_hit [of b v "appointments db" "users db" "\<lambda>a u. user_email a = email u"]
          by simp
        with same assms(2) show ?thesis by auto
      qed
      with n r show "r ! 1 = CStr (lit ''Unknown'')"
        by (simp add: appointment_row_def or_str_def)
    qed
  qed
  have excluded: "a \<notin> fst ` set (recent_appointments db)"
  proof
    assume "a \<in> fst ` set (recent_appointments db)"
    then obtain u where "(a, u) \<in> set (recent_appointments db)" by force
    then have "u \<in> set (users db) \<and> user_email a = email u"
      using recent_appointments_matched by blast
    with assms(2) show False by auto
  qed
  have same_view: "view_recent_activity (Present (db\<lparr>appointments := removeAll a (appointments db)\<rparr>))
             = view_recent_activity (Present db)"
    using recent_appointments_removeAll [OF assms(2)]
    by (simp add: view_recent_activity_present)
  from printed headers row others select_recent_appts_present excluded same_view
  show ?thesis by blast
qed

theorem unmatched_appointment_witness:
  "visit3 \<in> set (appointments clinic)
   \<and> \<not> (\<exists>u\<in>set (users clinic). email u = user_email visit3)
   \<and> [CInt (appt_id visit3), CStr (lit ''Unknown''), CStr (user_email visit3),
       CStr (doctor visit3), CStr (date visit3), CStr (time visit3), CStr (booked_at visit3)]
       \<in> set (map appointment_row (listed_appointments clinic))
   \<and> visit3 \<notin> fst ` set (recent_appointments clinic)
   \<and> view_recent_activity (Present (clinic\<lparr>appointments := removeAll visit3 (appointments clinic)\<rparr>))
       = view_recent_activity (Present clinic)"
proof -
  have h1: "visit3 \<in> set (appointments clinic)"
    by (simp add: appointments_clinic)
  have h2: "\<forall>u\<in>set (users clinic). email u \<noteq> user_email visit3"
    by (simp add: users_clinic ann_def bob_def cyd_def visit3_def lit_def)
  show ?thesis
    using h1 h2 unmatched_appointment [OF h1 h2] by simp
qed

section \<open>The most active user\<close>

lemma select_most_active_present: "select_most_active (Some db) = Inr (most_active db)"
  by (simp add: select_most_active_def from_users_def from_appointments_def most_active_def)

lemma sorted_insort_desc:
  "sorted_wrt (\<lambda>a b. f b \<le> f a) xs \<Longrightarrow> sorted_wrt (\<lambda>a b. f b \<le> f a) (insort_desc f x xs)"
  by (induction xs) (auto simp: set_insort_desc)

lemma sorted_order_by_desc: "sorted_wrt (\<lambda>a b. f b \<le> f a) (order_by_desc f xs)"
  by (induction xs) (simp_all add: order_by_desc_def sorted_insort_desc)

lemma fetchone_order_by_desc_None: "fetchone (order_by_desc f xs) = None \<longleftrightarrow> xs = []"
  using set_order_by_desc [of f xs] by (metis fetchone_Nil set_empty)

lemma fetchone_order_by_desc_Some:
  assumes "fetchone (order_by_desc f xs) = Some x"
  shows "x \<in> set xs \<and> (\<forall>y\<in>set xs. f y \<le> f x)"
proof -
  from assms obtain ys where ys: "order_by_desc f xs = x # ys"
    by (cases "order_by_desc f xs") (simp_all add: fetchone_def)
  then have "set xs = insert x (set ys)"
    using set_order_by_desc [of f xs] by simp
  moreover from ys have "\<forall>y\<in>set ys. f y \<le> f x"
    using sorted_order_by_desc [of f xs] by simp
  ultimately show ?thesis by auto
qed

lemma group_by_rows: "(\<Union>(r, g)\<in>set (group_by k rs). set g) = set rs"
proof (induction k rs rule: group_by.induct)
  case (1 k)
  then show ?case by simp
next
  case (2 k r rs)
  then show ?case by auto
qed

lemma left_join_match:
  "l \<in> set ls \<Longrightarrow> r \<in> set rs \<Longrightarrow> c l r \<Longrightarrow> (l, Some r) \<in> set (left_join ls rs c)"
proof (induction ls)
  case Nil
  then show ?case by simp
next
  case (Cons k ks)
  show ?case
  proof (cases "l = k")
    case True
    from Cons.prems have "r \<in> set (filter (c l) rs)" by simp
    with True show ?thesis
      by (cases "filter (c k) rs") (auto simp: left_join_def)
  next
    case False
    with Cons show ?thesis by (auto simp: left_join_def)
  qed
qed

lemma count_appointments_zero: "count_appointments g = 0 \<longleftrightarrow> (\<forall>row\<in>set g. snd row = None)"
  by (auto simp: count_appointments_def filter_empty_conv)

lemma user_appt_counts_all_zero:
  "(\<forall>row\<in>set (user_appt_counts us as). snd (snd row) = 0) \<longleftrightarrow>
     (\<forall>u\<in>set us. \<forall>a\<in>set as. email u \<noteq> user_email a)"
proof -
  let ?rows = "left_join us as (\<lambda>u a. email u = user_email a)"
  let ?groups = "group_by (\<lambda>(u, a). email u) ?rows"
  have "(\<forall>row\<in>set (user_appt_counts us as). snd (snd row) = 0) \<longleftrightarrow>
          (\<forall>(r, g)\<in>set ?groups. count_appointments g = 0)"
    by (auto simp: user_appt_counts_def)
  also have "\<dots> \<longleftrightarrow> (\<forall>row\<in>(\<Union>(r, g)\<in>set ?groups. set g). snd row = None)"
    by (auto simp: count_appointments_zero)
  also have "\<dots> \<longleftrightarrow> (\<forall>row\<in>set ?rows. snd row = None)"
    by (simp only: group_by_rows)
  also have "\<dots> \<longleftrightarrow> (\<forall>u\<in>set us. \<forall>a\<in>set as. email u \<noteq> user_email a)"
  proof
    assume none: "\<forall>row\<in>set ?rows. snd row = None"
    show "\<forall>u\<in>set us. \<forall>a\<in>set as. email u \<noteq> user_email a"
    proof (intro ballI notI)
      fix u a
      assume "u \<in> set us" "a \<in> set as" "email u = user_email a"
      then have "(u, Some a) \<in> set ?rows" by (rule left_join_match)
      with none show False by force
    qed
  next
    assume nomatch: "\<forall>u\<in>set us. \<forall>a\<in>set as. email u \<noteq> user_email a"
    show "\<forall>row\<in>set ?rows. snd row = None"
    proof
      fix row
      assume row: "row \<in> set ?rows"
      obtain u x where ux: "row = (u, x)" by (cases row)
      show "snd row = None"
      proof (cases x)
        case None
        with ux show ?thesis by simp
      next
        case (Some a)
        with row ux have "a \<in> set as \<and> email u = user_email a"
          using left_join_hit [of u a us as "\<lambda>u a. email u = user_email a"] by simp
        moreover from row ux have "u \<in> set us"
          using left_join_fst [of us as "\<lambda>u a. email u = user_email a"] by force
        ultimately show ?thesis using nomatch by blast
      qed
    qed
  qed
  finally show ?thesis .
qed

lemma appointment_count_zero:
  "(\<forall>u\<in>set (users db). appointment_count db u = 0) \<longleftrightarrow>
     (\<forall>u\<in>set (users db). \<forall>a\<in>set (appointments db). email u \<noteq> user_email a)"
  by (simp add: appointment_count_def filter_empty_conv) metis


lemma group_by_block:
  assumes "\<forall>z\<in>set xs. k z = k x" and "\<forall>z\<in>set ys. k z \<noteq> k x"
  shows "group_by k (x # xs @ ys) = (x, x # xs) # group_by k ys"
proof -
  from assms have "filter (\<lambda>z. k z = k x) (xs @ ys) = xs"
    by (simp add: filter_empty_conv filter_id_conv)
  moreover from assms have "filter (\<lambda>z. k z \<noteq> k x) (xs @ ys) = ys"
    by (simp add: filter_empty_conv filter_id_conv)
  ultimately show ?thesis by simp
qed

lemma left_join_Cons:
  "left_join (l # ls) rs c =
     (case filter (c l) rs of [] \<Rightarrow> [(l, None)] | m # ms \<Rightarrow> map (\<lambda>r. (l, Some r)) (m # ms))
     @ left_join ls rs c"
  by (simp add: left_join_def)

lemma user_appt_counts_distinct:
  "distinct (map email us) \<Longrightarrow>
     user_appt_counts us as =
       map (\<lambda>u. (name u, email u, length (filter (\<lambda>a. email u = user_email a) as))) us"
proof (induction us)
  case Nil
  then show ?case by (simp add: user_appt_counts_def left_join_def)
next
  case (Cons u us)
  let ?c = "\<lambda>u a. email u = user_email a"
  let ?k = "\<lambda>(u, a :: appointment option). email u"
  let ?rest = "left_join us as ?c"
  have others: "\<forall>z\<in>set ?rest. ?k z \<noteq> ?k (u, x)" for x
  proof
    fix z
    assume "z \<in> set ?rest"
    then have "fst z \<in> set us"
      using left_join_fst [of us as ?c] by force
    moreover from Cons.prems have "email u \<notin> email ` set us" by simp
    ultimately have "email (fst z) \<noteq> email u" by (metis image_eqI)
    then show "?k z \<noteq> ?k (u, x)" by (simp add: case_prod_beta)
  qed
  from Cons have IH: "map (\<lambda>(r, g). (name (fst r), email (fst r), count_appointments g))
                        (group_by ?k ?rest) =
       map (\<lambda>u. (name u, email u, length (filter (\<lambda>a. email u = user_email a) as))) us"
    by (simp add: user_appt_counts_def)
  show ?case
  proof (cases "filter (?c u) as")
    case Nil
    then have "left_join (u # us) as ?c = (u, None) # [] @ ?rest"
      by (simp add: left_join_Cons)
    moreover have "group_by ?k ((u, None) # [] @ ?rest) = ((u, None), [(u, None)]) # group_by ?k ?rest"
      using others [of None] by (intro group_by_block) simp_all
    ultimately show ?thesis
      using Nil IH by (simp add: user_appt_counts_def count_appointments_def)
  next
    case (Cons m ms)
    then have "left_join (u # us) as ?c = (u, Some m) # map (\<lambda>r. (u, Some r)) ms @ ?rest"
      by (simp add: left_join_Cons)
    moreover have "group_by ?k ((u, Some m) # map (\<lambda>r. (u, Some r)) ms @ ?rest) =
                     ((u, Some m), (u, Some m) # map (\<lambda>r. (u, Some r)) ms) # group_by ?k ?rest"
      using others [of "Some m"] by (intro group_by_block) simp_all
    ultimately show ?thesis
      using Cons IH by (simp add: user_appt_counts_def count_appointments_def)
  qed
qed

lemma user_appt_counts_appointment_count:
  assumes "distinct (map email (users db))"
  shows "user_appt_counts (users db) (appointments db) =
           map (\<lambda>u. (name u, email u, appointment_count db u)) (users db)"
proof -
  have eq: "length (filter (\<lambda>a. email u = user_email a) (appointments db)) =
              appointment_count db u" for u
    unfolding appointment_count_def
    by (rule arg_cong [where f = length], rule filter_cong) auto
  show ?thesis
    unfolding user_appt_counts_distinct [OF assms] by (simp only: eq)
qed

lemma length_lit: "length (lit s) = length s"
  by (simp add: lit_def)

lemma most_active_value_NA:
  "most_active_value best = lit ''N/A'' \<longleftrightarrow>
     (case best of None \<Rightarrow> True | Some (n, e, appt_count) \<Rightarrow> appt_count = 0)"
proof (cases best)
  case None
  then show ?thesis by (simp add: most_active_value_def)
next
  case (Some row)
  obtain n e c where row: "row = (n, e, c)" by (cases row)
  have "length (n @ lit '' ('' @ str_nat c @ lit '' appointments)'') \<noteq> length (lit ''N/A'')"
    by (simp add: length_lit)
  then have "n @ lit '' ('' @ str_nat c @ lit '' appointments)'' \<noteq> lit ''N/A''"
    by metis
  with Some row show ?thesis by (simp add: most_active_value_def)
qed

lemma most_active_zero:
  "(case most_active db of None \<Rightarrow> True | Some (n, e, appt_count) \<Rightarrow> appt_count = 0) \<longleftrightarrow>
     (\<forall>row\<in>set (user_appt_counts (users db) (appointments db)). snd (snd row) = 0)"
proof (cases "most_active db")
  case None
  then have "user_appt_counts (users db) (appointments db) = []"
    by (simp add: most_active_def fetchone_order_by_desc_None)
  with None show ?thesis by simp
next
  case (Some best)
  then have best: "best \<in> set (user_appt_counts (users db) (appointments db))
      \<and> (\<forall>y\<in>set (user_appt_counts (users db) (appointments db)).
            (\<lambda>(n, e, appt_count). appt_count) y \<le> (\<lambda>(n, e, appt_count). appt_count) best)"
    unfolding most_active_def by (rule fetchone_order_by_desc_Some)
  obtain n e c where t: "best = (n, e, c)" by (cases best)
  show ?thesis
  proof
    assume "case most_active db of None \<Rightarrow> True | Some (n, e, appt_count) \<Rightarrow> appt_count = 0"
    with Some t have "c = 0" by simp
    with best t show "\<forall>row\<in>set (user_appt_counts (users db) (appointments db)). snd (snd row) = 0"
      by (auto simp: case_prod_beta)
  next
    assume "\<forall>row\<in>set (user_appt_counts (users db) (appointments db)). snd (snd row) = 0"
    with best t have "c = 0" by force
    with Some t show "case most_active db of None \<Rightarrow> True | Some (n, e, appt_count) \<Rightarrow> appt_count = 0"
      by simp
  qed
qed


lemma view_stats_rows:
  "view_stats (Present db) today =
     Inr [PrintTabulate
            [[CStr label_total_users, CInt (int (length (users db)))],
             [CStr label_total_appointments, CInt (int (length (appointments db)))],
             [CStr label_today,
              CInt (int (length (filter (\<lambda>a. date a = today) (appointments db))))],
             [CStr label_most_active, CStr (most_active_value (most_active db))],
             [CStr label_popular_doctor,
              CStr (popular_doctor_value
                      (fetchone (order_by_desc (\<lambda>(d, count). count)
                                   (doctor_counts (appointments db)))))]]
            stats_headers FancyGrid]"
  by (simp add: view_stats_present most_active_def)

lemma appointment_counts_clinic:
  "appointment_count clinic ann = 1" "appointment_count clinic bob = 1"
  "appointment_count clinic cyd = 0"
  by (simp_all add: appointment_count_def appointments_clinic ann_def bob_def cyd_def
      visit1_def visit2_def visit3_def lit_def)

lemma user_appt_counts_clinic:
  "user_appt_counts (users clinic) (appointments clinic) =
     [(name ann, email ann, 1), (name bob, email bob, 1), (name cyd, email cyd, 0)]"
  using user_appt_counts_appointment_count [OF distinct_emails_clinic]
  by (simp add: users_clinic appointment_counts_clinic)

lemma most_active_clinic: "most_active clinic = Some (name ann, email ann, 1)"
  by (simp add: most_active_def user_appt_counts_clinic order_by_desc_def fetchone_def)

text \<open>
  Claim C2, as amended. The value of \<^verbatim>\<open>Most Active User\<close> is \<^verbatim>\<open>N/A\<close> exactly when every
  user has zero appointments. Otherwise, in a store where emails identify users, it is the
  name and the count of a user whose count is positive and at least the count of every
  user. The count is maximal, not strictly maximal: the example store has two users with
  one appointment each, and the statistics name one of them.
\<close>

theorem most_active_user:
  "select_most_active (Some db) = Inr (most_active db)
   \<and> (\<exists>r1 r2 r3 r5. view_stats (Present db) today =
         Inr [PrintTabulate
                [r1, r2, r3,
                 [CStr label_most_active, CStr (most_active_value (most_active db))], r5]
                stats_headers FancyGrid])
   \<and> (most_active_value (most_active db) = lit ''N/A'' \<longleftrightarrow>
        (\<forall>u\<in>set (users db). appointment_count db u = 0))
   \<and> (distinct (map email (users db)) \<and> (\<exists>u\<in>set (users db). 0 < appointment_count db u) \<longrightarrow>
        (\<exists>u\<in>set (users db).
            most_active_value (most_active db) =
              name u @ lit '' ('' @ str_nat (appointment_count db u) @ lit '' appointments)''
            \<and> 0 < appointment_count db u
            \<and> (\<forall>w\<in>set (users db). appointment_count db w \<le> appointment_count db u)))"
proof (intro conjI impI)
  show "select_most_active (Some db) = Inr (most_active db)"
    by (rule select_most_active_present)
  show "\<exists>r1 r2 r3 r5. view_stats (Present db) today =
         Inr [PrintTabulate
                [r1, r2, r3,
                 [CStr label_most_active, CStr (most_active_value (most_active db))], r5]
                stats_headers FancyGrid]"
    by (simp add: view_stats_rows)
  show "most_active_value (most_active db) = lit ''N/A'' \<longleftrightarrow>
        (\<forall>u\<in>set (users db). appointment_count db u = 0)"
    by (simp only: most_active_value_NA most_active_zero user_appt_counts_all_zero
        appointment_count_zero)
next
  assume a: "distinct (map email (users db)) \<and> (\<exists>u\<in>set (users db). 0 < appointment_count db u)"
  then have counts: "user_appt_counts (users db) (appointments db) =
           map (\<lambda>u. (name u, email u, appointment_count db u)) (users db)"
    by (simp add: user_appt_counts_appointment_count)
  from a have "users db \<noteq> []" by auto
  with counts have "most_active db \<noteq> None"
    by (simp add: most_active_def fetchone_order_by_desc_None)
  then obtain best where best: "most_active db = Some best" by auto
  then have "best \<in> set (user_appt_counts (users db) (appointments db))
      \<and> (\<forall>y\<in>set (user_appt_counts (users db) (appointments db)).
            (\<lambda>(n, e, appt_count). appt_count) y \<le> (\<lambda>(n, e, appt_count). appt_count) best)"
    unfolding most_active_def by (rule fetchone_order_by_desc_Some)
  with counts obtain u where u: "u \<in> set (users db)"
    and b: "best = (name u, email u, appointment_count db u)"
    and mx: "\<forall>w\<in>set (users db). appointment_count db w \<le> appointment_count db u"
    by auto
  from a mx have pos: "0 < appointment_count db u" by force
  with best b have "most_active_value (most_active db) =
              name u @ lit '' ('' @ str_nat (appointment_count db u) @ lit '' appointments)''"
    by (simp add: most_active_value_def)
  with u pos mx show "\<exists>u\<in>set (users db).
            most_active_value (most_active db) =
              name u @ lit '' ('' @ str_nat (appointment_count db u) @ lit '' appointments)''
            \<and> 0 < appointment_count db u
            \<and> (\<forall>w\<in>set (users db). appointment_count db w \<le> appointment_count db u)"
    by blast
qed

theorem most_active_user_witness:
  "distinct (map email (users clinic)) \<and> (\<exists>u\<in>set (users clinic). 0 < appointment_count clinic u)
   \<and> most_active_value (most_active clinic) \<noteq> lit ''N/A''
   \<and> (\<exists>u\<in>set (users clinic).
         most_active_value (most_active clinic) =
           name u @ lit '' ('' @ str_nat (appointment_count clinic u) @ lit '' appointments)''
         \<and> 0 < appointment_count clinic u
         \<and> (\<forall>w\<in>set (users clinic). appointment_count clinic w \<le> appointment_count clinic u))"
proof -
  have h1: "distinct (map email (users clinic))"
    by (rule distinct_emails_clinic)
  have h2: "\<exists>u\<in>set (users clinic). 0 < appointment_count clinic u"
    by (simp add: users_clinic appointment_counts_clinic)
  have h3: "\<not> (\<forall>u\<in>set (users clinic). appointment_count clinic u = 0)"
    by (simp add: users_clinic appointment_counts_clinic)
  show ?thesis
    using h1 h2 h3 most_active_user [of clinic] by blast
qed

theorem most_active_user_counterexample:
  "ann \<in> set (users clinic) \<and> bob \<in> set (users clinic) \<and> user_id bob \<noteq> user_id ann
   \<and> 0 < appointment_count clinic ann
   \<and> select_most_active (Some clinic) = Inr (Some (name ann, email ann, appointment_count clinic ann))
   \<and> most_active_value (most_active clinic) =
       lit ''Ann'' @ lit '' ('' @ str_nat 1 @ lit '' appointments)''
   \<and> \<not> appointment_count clinic bob < appointment_count clinic ann"
proof -
  have "user_id bob \<noteq> user_id ann" and "name ann = lit ''Ann''"
    by (simp_all add: ann_def bob_def)
  then show ?thesis
    by (simp add: users_clinic appointment_counts_clinic select_most_active_present
        most_active_clinic most_active_value_def)
qed


section \<open>The counts of the statistics\<close>

lemma count_key_distinct:
  "distinct (map f xs) \<Longrightarrow>
     length (filter (\<lambda>y. f y = v) xs) = (if \<exists>y\<in>set xs. f y = v then 1 else 0)"
proof (induction xs)
  case Nil
  then show ?case by simp
next
  case (Cons x xs)
  show ?case
  proof (cases "f x = v")
    case True
    with Cons.prems have "v \<notin> f ` set xs" by simp
    then have "\<forall>y\<in>set xs. f y \<noteq> v" by (metis image_eqI)
    then have "filter (\<lambda>y. f y = v) xs = []" by (simp add: filter_empty_conv)
    with True show ?thesis by simp
  next
    case False
    with Cons show ?thesis by simp
  qed
qed

lemma sum_appointment_counts:
  assumes "distinct (map email us)"
  shows "sum_list (map (\<lambda>u. length (filter (\<lambda>a. user_email a = email u) as)) us) =
           length (filter (\<lambda>a. \<exists>u\<in>set us. email u = user_email a) as)"
proof (induction as)
  case Nil
  then show ?case by simp
next
  case (Cons a as)
  have "sum_list (map (\<lambda>u. length (filter (\<lambda>a. user_email a = email u) (a # as))) us) =
          sum_list (map (\<lambda>u. (if email u = user_email a then 1 else 0)
                              + length (filter (\<lambda>a. user_email a = email u) as)) us)"
    by (rule arg_cong [where f = sum_list], rule map_cong) auto
  also have "\<dots> = sum_list (map (\<lambda>u. if email u = user_email a then 1 else 0) us)
                   + sum_list (map (\<lambda>u. length (filter (\<lambda>a. user_email a = email u) as)) us)"
    by (simp add: sum_list_addf)
  also have "sum_list (map (\<lambda>u. if email u = user_email a then 1 else 0) us) =
               length (filter (\<lambda>u. email u = user_email a) us)"
    by (induction us) simp_all
  also have "\<dots> = (if \<exists>u\<in>set us. email u = user_email a then 1 else 0)"
    using assms by (rule count_key_distinct)
  finally show ?case
    using Cons by simp
qed

text \<open>
  Claim C9. In a store where emails identify users, the count that the query for the most
  active user computes for a user is the number of appointments whose \<^verbatim>\<open>user_email\<close>
  equals that user's email. The total and today's count are taken over all appointments,
  also those whose email no user has; these are in no user's count, so the counts of the
  users and the number of such appointments add up to the total, and the users' counts
  alone are less than the total when there is such an appointment.
\<close>

theorem per_user_counts:
  assumes "distinct (map email (users db))"
  shows "user_appt_counts (users db) (appointments db) =
           map (\<lambda>u. (name u, email u, appointment_count db u)) (users db)
         \<and> (\<exists>r4 r5. view_stats (Present db) today =
               Inr [PrintTabulate
                      [[CStr label_total_users, CInt (int (length (users db)))],
                       [CStr label_total_appointments, CInt (int (length (appointments db)))],
                       [CStr label_today,
                        CInt (int (length (filter (\<lambda>a. date a = today) (appointments db))))],
                       r4, r5]
                      stats_headers FancyGrid])
         \<and> sum_list (map (appointment_count db) (users db))
             + length (filter (\<lambda>a. \<not> (\<exists>u\<in>set (users db). email u = user_email a))
                         (appointments db))
             = length (appointments db)
         \<and> ((\<exists>a\<in>set (appointments db). \<not> (\<exists>u\<in>set (users db). email u = user_email a)) \<longrightarrow>
               sum_list (map (appointment_count db) (users db)) < length (appointments db))"
proof -
  have counts: "user_appt_counts (users db) (appointments db) =
           map (\<lambda>u. (name u, email u, appointment_count db u)) (users db)"
    using assms by (rule user_appt_counts_appointment_count)
  have table: "\<exists>r4 r5. view_stats (Present db) today =
               Inr [PrintTabulate
                      [[CStr label_total_users, CInt (int (length (users db)))],
                       [CStr label_total_appointments, CInt (int (length (appointments db)))],
                       [CStr label_today,
                        CInt (int (length (filter (\<lambda>a. date a = today) (appointments db))))],
                       r4, r5]
                      stats_headers FancyGrid]"
    by (simp add: view_stats_rows)
  have "sum_list (map (appointment_count db) (users db)) =
          length (filter (\<lambda>a. \<exists>u\<in>set (users db). email u = user_email a) (appointments db))"
    using sum_appointment_counts [OF assms, of "appointments db"]
    by (simp add: appointment_count_def [abs_def])
  then have total: "sum_list (map (appointment_count db) (users db))
             + length (filter (\<lambda>a. \<not> (\<exists>u\<in>set (users db). email u = user_email a))
                         (appointments db))
             = length (appointments db)"
    using sum_length_filter_compl
      [of "\<lambda>a. \<exists>u\<in>set (users db). email u = user_email a" "appointments db"]
    by simp
  have less: "sum_list (map (appointment_count db) (users db)) < length (appointments db)"
    if "\<exists>a\<in>set (appointments db). \<not> (\<exists>u\<in>set (users db). email u = user_email a)"
  proof -
    from that have "filter (\<lambda>a. \<not> (\<exists>u\<in>set (users db). email u = user_email a))
                         (appointments db) \<noteq> []"
      by (simp add: filter_empty_conv)
    then have "0 < length (filter (\<lambda>a. \<not> (\<exists>u\<in>set (users db). email u = user_email a))
                         (appointments db))"
      by simp
    with total show ?thesis by linarith
  qed
  from counts table total less show ?thesis by blast
qed

theorem per_user_counts_witness:
  "distinct (map email (users clinic))
   \<and> (\<exists>a\<in>set (appointments clinic). \<not> (\<exists>u\<in>set (users clinic). email u = user_email a))
   \<and> user_appt_counts (users clinic) (appointments clinic) =
       map (\<lambda>u. (name u, email u, appointment_count clinic u)) (users clinic)
   \<and> sum_list (map (appointment_count clinic) (users clinic)) < length (appointments clinic)"
proof -
  have h1: "distinct (map email (users clinic))"
    by (rule distinct_emails_clinic)
  have "\<not> (\<exists>u\<in>set (users clinic). email u = user_email visit3)"
    by (simp add: users_clinic ann_def bob_def cyd_def visit3_def lit_def)
  then have h2: "\<exists>a\<in>set (appointments clinic). \<not> (\<exists>u\<in>set (users clinic). email u = user_email a)"
    by (simp add: appointments_clinic)
  show ?thesis
    using h1 h2 per_user_counts [OF h1] by blast
qed

section \<open>The start of the program\<close>

lemma strip_digit: "strip (lit ''6'') = lit ''6''" "strip (lit ''1'') = lit ''1''"
  by (simp_all add: strip_def isspace_def lit_def)

lemma lit_6_1: "lit ''1'' \<noteq> lit ''6''"
  by (simp add: lit_def)

lemma main_connect_fails:
  "sqlite3_connect s = Inl e \<Longrightarrow> main s today evs = database_not_found"
  by (cases s) (auto simp: main_def sqlite3_connect_def handler_def)

lemma main_unopenable: "main Unopenable today evs = database_not_found"
  by (simp add: main_connect_fails sqlite3_connect_def)

lemma view_users_missing:
  "view_users Missing = Inl (OperationalError (lit ''no such table: users''))"
  by (simp add: view_users_def sqlite3_connect_def from_users_def)

text \<open>
  Claim C1. When the store cannot be opened at startup, the program prints the message
  \<^verbatim>\<open>Database 'health_assistant.db' not found!\<close> and ends before the menu is shown; in
  particular the menu is never entered when the store file is absent.

  The first half holds of \<^verbatim>\<open>main\<close>: when \<^verbatim>\<open>sqlite3.connect\<close> raises, the three lines
  of the message are all that is printed (\<open>main_connect_fails\<close>). The second half does
  not: \<^verbatim>\<open>main\<close> checks that the database exists (its comment says so) by connecting to
  it, and connecting to a file that is absent creates it. So the menu is shown. With the
  choice 6 the program ends without any message about the database; with the choice 1
  the message follows the menu and the section heading, when the query finds no table.
\<close>

theorem main_missing_store_shows_menu:
  "sqlite3_connect Missing = Inr None
   \<and> main Missing today [Line (lit ''6'')] = menu @ [Print goodbye]
   \<and> main Missing today [Line (lit ''1'')] =
       menu @ print_section (lit ''ALL USERS'') @ database_not_found"
proof (intro conjI)
  show "sqlite3_connect Missing = Inr None"
    by (simp add: sqlite3_connect_def)
  show "main Missing today [Line (lit ''6'')] = menu @ [Print goodbye]"
    by (simp add: main_def sqlite3_connect_def interactive_menu.simps input_def strip_digit)
  have "dispatch Missing today (lit ''1'') [] =
          (print_section (lit ''ALL USERS''), Inl (OperationalError (lit ''no such table: users'')))"
    by (simp add: dispatch_def section_then_def view_users_missing)
  then show "main Missing today [Line (lit ''1'')] =
       menu @ print_section (lit ''ALL USERS'') @ database_not_found"
    by (simp add: main_def sqlite3_connect_def interactive_menu.simps input_def strip_digit
        lit_6_1 handler_def)
qed

end
